theory Spec2Isabelle
  imports Complex_Main "HOL-Library.Word" "HOL-Library.AList"
begin

unbundle bit_operations_syntax

section \<open>Text and the precompiled regular expressions\<close>

text \<open>
  A Python \<open>str\<close> is modelled as a \<open>string\<close> whose characters are read as the code
  points U+0000 .. U+00FF. The three tables below are what \<open>\s\<close>, \<open>\w\<close> and
  \<open>str.lower\<close> do on that range (a \<open>str\<close> pattern of \<open>re\<close> is a Unicode pattern).
\<close>

definition is_space :: "char \<Rightarrow> bool" where
  "is_space c =
     (let n = (of_char c :: nat)
      in (9 \<le> n \<and> n \<le> 13) \<or> (28 \<le> n \<and> n \<le> 32) \<or> n = 133 \<or> n = 160)"

definition is_word :: "char \<Rightarrow> bool" where
  "is_word c =
     (let n = (of_char c :: nat)
      in (48 \<le> n \<and> n \<le> 57) \<or> (65 \<le> n \<and> n \<le> 90) \<or> n = 95 \<or> (97 \<le> n \<and> n \<le> 122)
         \<or> n = 170 \<or> n = 178 \<or> n = 179 \<or> n = 181 \<or> n = 185 \<or> n = 186
         \<or> (188 \<le> n \<and> n \<le> 190) \<or> (192 \<le> n \<and> n \<le> 214) \<or> (216 \<le> n \<and> n \<le> 246)
         \<or> 248 \<le> n)"

definition lower_char :: "char \<Rightarrow> char" where
  "lower_char c =
     (let n = (of_char c :: nat)
      in if (65 \<le> n \<and> n \<le> 90) \<or> (192 \<le> n \<and> n \<le> 214) \<or> (216 \<le> n \<and> n \<le> 222)
         then char_of (n + 32) else c)"

definition lower :: "string \<Rightarrow> string" where
  "lower s = map lower_char s"

definition strip :: "string \<Rightarrow> string" where
  "strip s = rev (dropWhile is_space (rev (dropWhile is_space s)))"

text \<open>
  \<open>re.compile(r'[\n\r\t]+').sub(' ', s)\<close> and \<open>re.compile(r'\s+').sub(' ', s)\<close>: every
  maximal run of characters of the class becomes one space.
\<close>

function sub_runs :: "(char \<Rightarrow> bool) \<Rightarrow> string \<Rightarrow> string" where
  "sub_runs p [] = []"
| "sub_runs p (c # cs) =
     (if p c then CHR '' '' # sub_runs p (dropWhile p cs) else c # sub_runs p cs)"
  by pat_completeness auto
termination
  by (relation "measure (\<lambda>(p, s). length s)")
     (auto simp: length_dropWhile_le less_Suc_eq_le)

definition is_newline :: "char \<Rightarrow> bool" where
  "is_newline c = (c = CHR 0x0A \<or> c = CHR 0x0D \<or> c = CHR 0x09)"

definition NEWLINES_REGEX_sub :: "string \<Rightarrow> string" where
  "NEWLINES_REGEX_sub s = sub_runs is_newline s"

definition SPACES_REGEX_sub :: "string \<Rightarrow> string" where
  "SPACES_REGEX_sub s = sub_runs is_space s"

text \<open>
  \<open>CLEAN_REGEX = re.compile(r'<[^>]+>|http\S+|[^\w\s]')\<close>. Each function gives the length
  of the match of one alternative at the start of the string; the alternatives are tried
  in the order written, the repetitions are greedy.
\<close>

definition match_tag :: "string \<Rightarrow> nat option" where
  "match_tag s =
     (case s of
        [] \<Rightarrow> None
      | c # r \<Rightarrow>
          if c = CHR ''<'' \<and> takeWhile (\<lambda>x. x \<noteq> CHR ''>'') r \<noteq> []
             \<and> dropWhile (\<lambda>x. x \<noteq> CHR ''>'') r \<noteq> []
          then Some (length (takeWhile (\<lambda>x. x \<noteq> CHR ''>'') r) + 2)
          else None)"

definition match_url :: "string \<Rightarrow> nat option" where
  "match_url s =
     (if take 4 s = ''http'' \<and> takeWhile (\<lambda>x. \<not> is_space x) (drop 4 s) \<noteq> []
      then Some (4 + length (takeWhile (\<lambda>x. \<not> is_space x) (drop 4 s)))
      else None)"

definition match_punct :: "string \<Rightarrow> nat option" where
  "match_punct s =
     (case s of
        [] \<Rightarrow> None
      | c # r \<Rightarrow> if \<not> is_word c \<and> \<not> is_space c then Some 1 else None)"

definition clean_match :: "string \<Rightarrow> nat option" where
  "clean_match s =
     (case match_tag s of
        Some n \<Rightarrow> Some n
      | None \<Rightarrow> (case match_url s of Some n \<Rightarrow> Some n | None \<Rightarrow> match_punct s))"

text \<open>
  \<open>CLEAN_REGEX.sub(' ', s)\<close>: scan from the left; a match (never empty) becomes one space
  and the scan goes on after it, an unmatched character is kept.
\<close>

function CLEAN_REGEX_sub :: "string \<Rightarrow> string" where
  "CLEAN_REGEX_sub [] = []"
| "CLEAN_REGEX_sub (c # cs) =
     (case clean_match (c # cs) of
        Some n \<Rightarrow> CHR '' '' # CLEAN_REGEX_sub (drop (n - 1) cs)
      | None \<Rightarrow> c # CLEAN_REGEX_sub cs)"
  by pat_completeness auto
termination
  by (relation "measure length") auto

text \<open>
  A keyword or exclusion pattern of \<open>CATEGORIES\<close> has the shape
  \<open>re.compile(r'\b(a1|a2|...)\b', re.I)\<close> with literal alternatives; it is modelled by the list
  of its alternatives. \<open>at_boundary prev rest\<close> is \<open>\b\<close> between a character whose
  word-ness is \<open>prev\<close> (False at the start of the text) and the text \<open>rest\<close>.
\<close>

type_synonym pattern = "string list"

definition at_boundary :: "bool \<Rightarrow> string \<Rightarrow> bool" where
  "at_boundary prev rest = (prev \<noteq> (case rest of [] \<Rightarrow> False | c # _ \<Rightarrow> is_word c))"

fun match_literal :: "string \<Rightarrow> bool \<Rightarrow> string \<Rightarrow> (bool \<times> string) option" where
  "match_literal [] prev s = Some (prev, s)"
| "match_literal (p # ps) prev [] = None"
| "match_literal (p # ps) prev (c # cs) =
     (if lower_char c = lower_char p then match_literal ps (is_word c) cs else None)"

definition match_here :: "bool \<Rightarrow> string \<Rightarrow> string \<Rightarrow> bool" where
  "match_here prev s a =
     (at_boundary prev s \<and>
      (case match_literal a prev s of
         None \<Rightarrow> False
       | Some (b, rest) \<Rightarrow> at_boundary b rest))"

fun search_from :: "pattern \<Rightarrow> bool \<Rightarrow> string \<Rightarrow> bool" where
  "search_from alts prev [] = list_ex (match_here prev []) alts"
| "search_from alts prev (c # cs) =
     (list_ex (match_here prev (c # cs)) alts \<or> search_from alts (is_word c) cs)"

definition pattern_search :: "pattern \<Rightarrow> string \<Rightarrow> bool" where
  "pattern_search alts s = search_from alts False s"

section \<open>The category rules\<close>

record category_rule =
  rule_keywords :: "(pattern \<times> int) list"
  rule_exclude :: "pattern list option"
  rule_threshold :: "int option"

definition CATEGORIES :: "(string \<times> category_rule) list" where
  "CATEGORIES =
     [(''Italia'',
       \<lparr>rule_keywords = [([''italia'', ''italy''], 3),
                    ([''roma'', ''rome'', ''milano'', ''milan''], 2),
                    ([''governo'', ''senato'', ''camera'', ''parlamento''], 4)],
        rule_exclude = Some [[''ue'', ''eu'', ''nato'', ''europa'']],
        rule_threshold = Some 5\<rparr>),
      (''Economy'',
       \<lparr>rule_keywords = [([''pil'', ''gdp''], 4),
                    ([''inflazione'', ''inflation''], 3),
                    ([''spread'', ''bce'', ''ecb''], 4)],
        rule_exclude = None,
        rule_threshold = Some 6\<rparr>),
      (''USA'',
       \<lparr>rule_keywords = [([''usa'', ''u.s.a'', ''united states''], 5),
                    ([''white house'', ''congresso usa''], 4)],
        rule_exclude = None,
        rule_threshold = Some 4\<rparr>)]"

section \<open>classify_text\<close>

datatype py_exn = NameError | KeyError | TypeError | ValueError | IOError | AttributeError

text \<open>
  The argument of \<open>classify_text\<close> is any object; \<open>str(text)\<close> is the identity on a
  \<open>str\<close> and otherwise whatever the object's \<open>__str__\<close> returns or raises.
\<close>

datatype py_obj = PyStr string | PyOther "py_exn + string"

definition py_str :: "py_obj \<Rightarrow> py_exn + string" where
  "py_str x = (case x of PyStr s \<Rightarrow> Inr s | PyOther r \<Rightarrow> r)"

definition normalize :: "string \<Rightarrow> string" where
  "normalize s = strip (lower (SPACES_REGEX_sub (CLEAN_REGEX_sub (NEWLINES_REGEX_sub s))))"

definition get_exclude :: "category_rule \<Rightarrow> pattern list" where
  "get_exclude config = (case rule_exclude config of None \<Rightarrow> [] | Some ps \<Rightarrow> ps)"

definition get_threshold :: "category_rule \<Rightarrow> int" where
  "get_threshold config = (case rule_threshold config of None \<Rightarrow> 0 | Some t \<Rightarrow> t)"

definition excluded_cats :: "(string \<times> category_rule) list \<Rightarrow> string \<Rightarrow> string list" where
  "excluded_cats cats text_clean =
     map fst (filter (\<lambda>(cat, config).
        list_ex (\<lambda>p. pattern_search p text_clean) (get_exclude config)) cats)"

definition keyword_score :: "category_rule \<Rightarrow> string \<Rightarrow> int" where
  "keyword_score config text_clean =
     fold (\<lambda>(p, weight) sc. if pattern_search p text_clean then sc + weight else sc)
          (rule_keywords config) 0"

definition compute_scores :: "(string \<times> category_rule) list \<Rightarrow> string \<Rightarrow> (string \<times> int) list" where
  "compute_scores cats text_clean =
     map (\<lambda>(cat, config).
            (cat, if cat \<in> set (excluded_cats cats text_clean) then 0
                  else keyword_score config text_clean)) cats"

fun valid_cats :: "(string \<times> category_rule) list \<Rightarrow> (string \<times> int) list \<Rightarrow> py_exn + (string \<times> int) list" where
  "valid_cats cats [] = Inr []"
| "valid_cats cats ((cat, score) # r) =
     (case map_of cats cat of
        None \<Rightarrow> Inl KeyError
      | Some config \<Rightarrow>
          (case valid_cats cats r of
             Inl e \<Rightarrow> Inl e
           | Inr v \<Rightarrow> Inr (if score \<ge> get_threshold config then (cat, score) # v else v)))"

fun max_key_from :: "string \<times> int \<Rightarrow> (string \<times> int) list \<Rightarrow> string" where
  "max_key_from best [] = fst best"
| "max_key_from best (x # xs) =
     (if snd x > snd best then max_key_from x xs else max_key_from best xs)"

definition py_max_key :: "(string \<times> int) list \<Rightarrow> string" where
  "py_max_key d = (case d of [] \<Rightarrow> ''Altro'' | x # xs \<Rightarrow> max_key_from x xs)"

definition classify_body :: "py_obj \<Rightarrow> py_exn + string" where
  "classify_body x =
     (case py_str x of
        Inl e \<Rightarrow> Inl e
      | Inr s \<Rightarrow>
          (let text_clean = normalize s
           in if text_clean = [] then Inr ''Altro''
              else (case valid_cats CATEGORIES (compute_scores CATEGORIES text_clean) of
                      Inl e \<Rightarrow> Inl e
                    | Inr v \<Rightarrow> Inr (py_max_key v))))"

text \<open>
  The result of a call: a returned value or an exception that leaves the function.
  \<open>classify_text\<close> wraps its body in \<open>try ... except Exception\<close>, whose handler logs and
  returns \<open>"Altro"\<close>.
\<close>

datatype 'a outcome = Returned 'a | Raised py_exn

definition classify_text :: "py_obj \<Rightarrow> string outcome" where
  "classify_text x =
     (case classify_body x of
        Inl e \<Rightarrow> Returned ''Altro''
      | Inr label \<Rightarrow> Returned label)"

section \<open>process_entry and the dedup cache\<close>

text \<open>
  \<open>str.encode()\<close> is UTF-8: one byte below U+0080, two bytes up to U+00FF.
  \<open>hashlib.sha256(...).hexdigest()\<close> is library code outside the repository; the digest
  is the parameter \<open>H\<close> of the functions below.
\<close>

type_synonym byte = "8 word"

definition encode_char :: "char \<Rightarrow> byte list" where
  "encode_char c =
     (let n = (of_char c :: nat)
      in if n < 128 then [of_nat n] else [of_nat (192 + n div 64), of_nat (128 + n mod 64)])"

definition encode :: "string \<Rightarrow> byte list" where
  "encode s = concat (map encode_char s)"

text \<open>A feed entry is a dictionary; \<open>entry.get(key, '')\<close> gives \<open>''\<close> for a missing key.\<close>

record feed_entry =
  entry_title :: "string option"
  entry_description :: "string option"
  entry_link :: "string option"

definition entry_get :: "string option \<Rightarrow> string" where
  "entry_get v = (case v of None \<Rightarrow> [] | Some s \<Rightarrow> s)"

definition raw_text :: "feed_entry \<Rightarrow> string" where
  "raw_text entry = entry_get (entry_title entry) @ '' '' @ entry_get (entry_description entry)"

definition content_hash :: "(byte list \<Rightarrow> string) \<Rightarrow> feed_entry \<Rightarrow> string" where
  "content_hash H entry = H (encode (raw_text entry))"

record cache_record =
  rec_timestamp :: real
  rec_category :: string
  rec_title :: string
  rec_link :: string

text \<open>The cache is a \<open>dict\<close>: an association list with distinct keys, in insertion order.\<close>

type_synonym cache = "(string \<times> cache_record) list"

definition process_entry ::
    "(byte list \<Rightarrow> string) \<Rightarrow> cache \<Rightarrow> real \<Rightarrow> feed_entry \<Rightarrow> string option \<times> cache" where
  "process_entry H cache now entry =
     (let content_hash = content_hash H entry
      in if map_of cache content_hash \<noteq> None then (None, cache)
         else (case classify_text (PyStr (raw_text entry)) of
                 Raised e \<Rightarrow> (None, cache)
               | Returned category \<Rightarrow>
                   (Some category,
                    AList.update content_hash
                      \<lparr>rec_timestamp = now, rec_category = category,
                       rec_title = take 200 (entry_get (entry_title entry)),
                       rec_link = entry_get (entry_link entry)\<rparr> cache)))"

section \<open>load_cache\<close>

text \<open>
  The cache file either cannot be opened or parsed, or holds a JSON object; a value of that
  object either has a numeric \<open>'timestamp'\<close> or makes \<open>v['timestamp']\<close> (or the subtraction)
  raise. Any exception inside the \<open>try\<close> makes \<open>load_cache\<close> return the empty dictionary.
\<close>

datatype json_record = WellFormed cache_record | Malformed

datatype cache_file = Unreadable | Parsed "(string \<times> json_record) list"

definition CACHE_EXPIRE_DAYS :: real where
  "CACHE_EXPIRE_DAYS = 3"

fun load_filter :: "real \<Rightarrow> (string \<times> json_record) list \<Rightarrow> cache option" where
  "load_filter now [] = Some []"
| "load_filter now ((k, Malformed) # r) = None"
| "load_filter now ((k, WellFormed v) # r) =
     (case load_filter now r of
        None \<Rightarrow> None
      | Some c \<Rightarrow>
          Some (if now - rec_timestamp v < CACHE_EXPIRE_DAYS * 86400 then (k, v) # c else c))"

definition load_cache :: "cache_file \<Rightarrow> real \<Rightarrow> cache" where
  "load_cache f now =
     (case f of
        Unreadable \<Rightarrow> []
      | Parsed kvs \<Rightarrow> (case load_filter now kvs of None \<Rightarrow> [] | Some c \<Rightarrow> c))"

section \<open>fetch_feed\<close>

text \<open>
  The names bound at module level by the imports and definitions of the file. A name that
  is neither here nor a builtin raises \<open>NameError\<close> when it is evaluated.
\<close>

definition module_globals :: "string list" where
  "module_globals =
     [''os'', ''re'', ''json'', ''time'', ''requests'', ''hashlib'', ''feedparser'',
      ''fasttext'', ''logging'', ''ET'', ''ThreadPoolExecutor'', ''as_completed'', ''Repo'',
      ''exc'', ''datetime'', ''CACHE_FILE'', ''OPML_FILE'', ''GITHUB_REPO_PATH'',
      ''GITHUB_REPO_URL'', ''CATEGORIZED_FEEDS_DIR'', ''MAX_THREADS'', ''REQUEST_TIMEOUT'',
      ''CACHE_EXPIRE_DAYS'', ''FEED_LIMIT'', ''ARTICLES_PER_FEED'', ''CHECK_INTERVAL'',
      ''OPML_REFRESH_INTERVAL'', ''CLEAN_REGEX'', ''SPACES_REGEX'', ''NEWLINES_REGEX'',
      ''lid_model'', ''CATEGORIES'', ''FeedProcessor'', ''main'']"

definition call_global :: "string \<Rightarrow> ('a \<Rightarrow> 'b) \<Rightarrow> 'a \<Rightarrow> py_exn + 'b" where
  "call_global name f x = (if name \<in> set module_globals then Inr (f x) else Inl NameError)"

datatype response = Response (status_code: int) (content: string)

datatype event =
    NetworkGet string "(string \<times> string) list"
  | LogError
  | LogWarning
  | LogInfo
  | WriteFile string string
  | GitAddAll
  | GitCommit
  | GitPush

record fetcher =
  last_fetch :: "string \<rightharpoonup> real"
  feed_timeout :: "string \<rightharpoonup> real"

definition ARTICLES_PER_FEED :: nat where
  "ARTICLES_PER_FEED = 10"

definition cool_down :: "fetcher \<Rightarrow> string \<Rightarrow> real \<Rightarrow> fetcher" where
  "cool_down st feed_url t = st\<lparr>feed_timeout := (feed_timeout st)(feed_url \<mapsto> t + 300)\<rparr>"

text \<open>
  \<open>fetch_feed\<close> with its environment as parameters: \<open>fmt\<close> is what the name
  \<open>formatdate\<close> would be bound to, \<open>http\<close> is \<open>requests.get\<close> (a response or an
  exception), \<open>parse\<close> is \<open>feedparser.parse(...).entries\<close>, \<open>t0\<close> is the clock at the
  cool-down test and \<open>t1\<close> the clock at the later \<open>time.time()\<close> (on success or in the
  handler). The result is the returned list, the new state and the effects in order.
\<close>

definition fetch_feed ::
    "(real \<Rightarrow> string) \<Rightarrow> (string \<Rightarrow> (string \<times> string) list \<Rightarrow> py_exn + response) \<Rightarrow>
     (string \<Rightarrow> py_exn + feed_entry list) \<Rightarrow> fetcher \<Rightarrow> string \<Rightarrow> real \<Rightarrow> real \<Rightarrow>
     feed_entry list \<times> fetcher \<times> event list" where
  "fetch_feed fmt http parse st feed_url t0 t1 =
     (if (case feed_timeout st feed_url of None \<Rightarrow> 0 | Some t \<Rightarrow> t) > t0 then ([], st, [])
      else
        (case (case last_fetch st feed_url of
                 None \<Rightarrow> Inr []
               | Some t \<Rightarrow>
                   (case call_global ''formatdate'' fmt t of
                      Inl e \<Rightarrow> Inl e
                    | Inr d \<Rightarrow> Inr [(''If-Modified-Since'', d)])) of
           Inl e \<Rightarrow> ([], cool_down st feed_url t1, [LogError])
         | Inr headers \<Rightarrow>
             (case http feed_url headers of
                Inl e \<Rightarrow> ([], cool_down st feed_url t1, [NetworkGet feed_url headers, LogError])
              | Inr resp \<Rightarrow>
                  if status_code resp = 304 then ([], st, [NetworkGet feed_url headers])
                  else
                    (case parse (content resp) of
                       Inl e \<Rightarrow>
                         ([], cool_down st feed_url t1, [NetworkGet feed_url headers, LogError])
                     | Inr entries \<Rightarrow>
                         (take ARTICLES_PER_FEED entries,
                          st\<lparr>last_fetch := (last_fetch st)(feed_url \<mapsto> t1)\<rparr>,
                          [NetworkGet feed_url headers])))))"

section \<open>generate_opml, push_to_github and the publish phase of main\<close>

definition outline :: "cache_record \<Rightarrow> string" where
  "outline entry =
     ''<outline type=\"rss\" text=\"'' @ rec_title entry @ ''\" title=\"'' @ rec_title entry
       @ ''\" xmlUrl=\"'' @ rec_link entry @ ''\"/>'' @ [CHR 0x0A]"

definition opml_content :: "cache \<Rightarrow> string \<Rightarrow> string" where
  "opml_content cache category =
     ''<?xml version=\"1.0\" encoding=\"UTF-8\"?>'' @ [CHR 0x0A]
     @ ''<opml version=\"1.0\">'' @ [CHR 0x0A] @ ''<head>'' @ [CHR 0x0A]
     @ ''<title>'' @ category @ '' Feed</title>'' @ [CHR 0x0A] @ ''</head>'' @ [CHR 0x0A]
     @ ''<body>'' @ [CHR 0x0A]
     @ concat (map outline
         (take 100 (filter (\<lambda>entry. rec_category entry = category) (map snd cache))))
     @ ''</body>'' @ [CHR 0x0A] @ ''</opml>''"

definition generate_opml :: "string \<Rightarrow> cache \<Rightarrow> string \<Rightarrow> event list" where
  "generate_opml dir cache category =
     [WriteFile (dir @ ''/'' @ lower category @ ''_feeds.opml'') (opml_content cache category)]"

datatype git_outcome = GitOk | AddFails | CommitFails | PushFails

definition push_to_github :: "bool \<Rightarrow> git_outcome \<Rightarrow> event list" where
  "push_to_github repo_available g =
     (if \<not> repo_available then [LogWarning]
      else (case g of
              GitOk \<Rightarrow> [GitAddAll, GitCommit, GitPush, LogInfo]
            | AddFails \<Rightarrow> [GitAddAll, LogError]
            | CommitFails \<Rightarrow> [GitAddAll, GitCommit, LogError]
            | PushFails \<Rightarrow> [GitAddAll, GitCommit, GitPush, LogError]))"

text \<open>
  Phase 3 of one cycle of \<open>main\<close> (the effects and the new \<open>last_push\<close>), and the handler of
  \<open>KeyboardInterrupt\<close>. \<open>t_after\<close> is the clock after the push. After the push the
  code logs \<open>processor.repo.git.status()\<close>, in the \<open>try\<close> and again in its handler:
  without a repository both raise \<open>AttributeError\<close>, and the second one leaves the cycle.
\<close>

definition publish_phase ::
    "bool \<Rightarrow> git_outcome \<Rightarrow> cache \<Rightarrow> real \<Rightarrow> real \<Rightarrow> real \<Rightarrow> event list \<times> real outcome" where
  "publish_phase repo_available g cache last_push current_time t_after =
     (if current_time - last_push > 21600
      then (if repo_available then (push_to_github repo_available g, Returned t_after)
            else (push_to_github repo_available g @ [LogError], Raised AttributeError))
      else ([], Returned last_push))"

definition on_interrupt :: "bool \<Rightarrow> git_outcome \<Rightarrow> cache \<Rightarrow> event list" where
  "on_interrupt repo_available g cache = push_to_github repo_available g @ [LogInfo]"

section \<open>Evaluation rules\<close>

lemmas text_eval = normalize_def NEWLINES_REGEX_sub_def is_newline_def SPACES_REGEX_sub_def
  is_space_def clean_match_def match_tag_def match_url_def match_punct_def is_word_def
  lower_def lower_char_def char_of_def strip_def bit_Suc_0_iff

lemmas search_eval = pattern_search_def match_here_def at_boundary_def is_word_def
  lower_char_def char_of_def bit_Suc_0_iff

lemmas classify_eval = classify_text_def classify_body_def py_str_def CATEGORIES_def
  compute_scores_def excluded_cats_def keyword_score_def get_exclude_def get_threshold_def
  py_max_key_def

section \<open>Properties of the classifier\<close>

lemma fold_weights:
  "fold (\<lambda>(p, weight) sc. if P p then sc + weight else sc) kws (a::int)
     = a + (\<Sum>(p, weight) \<leftarrow> kws. if P p then weight else 0)"
  by (induction kws arbitrary: a) (auto simp: algebra_simps)

lemma keyword_score_sum:
  "keyword_score config t
     = (\<Sum>(p, weight) \<leftarrow> rule_keywords config. if pattern_search p t then weight else 0)"
  unfolding keyword_score_def by (simp add: fold_weights)

lemma max_key_from_mem: "max_key_from b xs \<in> fst ` set (b # xs)"
  by (induction xs arbitrary: b) auto

lemma py_max_key_mem: "py_max_key d \<in> fst ` set d \<union> {''Altro''}"
proof (cases d)
  case Nil
  then show ?thesis by (simp add: py_max_key_def)
next
  case (Cons x xs)
  have "max_key_from x xs \<in> fst ` set (x # xs)" by (rule max_key_from_mem)
  with Cons show ?thesis by (simp add: py_max_key_def)
qed

lemma valid_cats_keys: "valid_cats cats sc = Inr v \<Longrightarrow> fst ` set v \<subseteq> fst ` set sc"
proof (induction sc arbitrary: v)
  case Nil
  then show ?case by simp
next
  case (Cons a sc)
  obtain cat score where a: "a = (cat, score)" by (cases a)
  from Cons.prems a obtain config v' where
    v': "valid_cats cats sc = Inr v'"
    and v: "v = (if score \<ge> get_threshold config then (cat, score) # v' else v')"
    by (auto split: option.splits sum.splits)
  from Cons.IH [OF v'] have "fst ` set v' \<subseteq> fst ` set sc" .
  with v a show ?case by auto
qed

lemma compute_scores_keys: "map fst (compute_scores cats t) = map fst cats"
  by (simp add: compute_scores_def split_def comp_def)

lemma classify_body_label:
  "classify_body x = Inr label \<Longrightarrow> label \<in> set (map fst CATEGORIES) \<union> {''Altro''}"
proof -
  assume a: "classify_body x = Inr label"
  show ?thesis
  proof (cases "py_str x")
    case (Inl e)
    with a show ?thesis by (simp add: classify_body_def)
  next
    case (Inr s)
    show ?thesis
    proof (cases "normalize s = []")
      case True
      with a Inr show ?thesis by (simp add: classify_body_def)
    next
      case False
      with a Inr obtain v where
        v: "valid_cats CATEGORIES (compute_scores CATEGORIES (normalize s)) = Inr v"
        and l: "label = py_max_key v"
        by (auto simp: classify_body_def Let_def split: sum.splits)
      from valid_cats_keys [OF v]
      have "fst ` set v \<subseteq> set (map fst (compute_scores CATEGORIES (normalize s)))" by simp
      then have "fst ` set v \<subseteq> set (map fst CATEGORIES)" by (simp only: compute_scores_keys)
      with py_max_key_mem [of v] l show ?thesis by auto
    qed
  qed
qed

text \<open>
  C7. \<open>classify_text\<close> is total: for every argument (a string, or any object whose
  \<open>__str__\<close> returns or raises) it returns, never raises, and the label it returns is one of
  the declared categories or the sentinel \<open>"Altro"\<close>.
\<close>

theorem classify_text_total:
  "\<exists>label. classify_text x = Returned label
     \<and> label \<in> set (map fst CATEGORIES) \<union> {''Altro''}"
proof (cases "classify_body x")
  case (Inl e)
  then show ?thesis by (simp add: classify_text_def)
next
  case (Inr label)
  with classify_body_label [OF Inr] show ?thesis by (simp add: classify_text_def)
qed

theorem classify_text_total_witness:
  "\<exists>label. classify_text (PyOther (Inl TypeError)) = Returned label
     \<and> label \<in> set (map fst CATEGORIES) \<union> {''Altro''}"
  using classify_text_total [of "PyOther (Inl TypeError)"] by simp

lemma excluded_only_Italia:
  assumes "(C, config) \<in> set CATEGORIES"
      and "list_ex (\<lambda>p. pattern_search p t) (get_exclude config)"
  shows "C = ''Italia'' \<and> pattern_search [''ue'', ''eu'', ''nato'', ''europa''] t"
  using assms by (auto simp: CATEGORIES_def get_exclude_def)

lemma excluded_scores:
  assumes "pattern_search [''ue'', ''eu'', ''nato'', ''europa''] t"
  shows "\<exists>a b. compute_scores CATEGORIES t = [(''Italia'', 0), (''Economy'', a), (''USA'', b)]"
  using assms by (simp add: compute_scores_def excluded_cats_def CATEGORIES_def get_exclude_def)

lemma excluded_valid:
  assumes "pattern_search [''ue'', ''eu'', ''nato'', ''europa''] t"
  shows "\<exists>v. valid_cats CATEGORIES (compute_scores CATEGORIES t) = Inr v
           \<and> ''Italia'' \<notin> fst ` set v"
proof -
  from excluded_scores [OF assms] obtain a b where
    eq: "compute_scores CATEGORIES t = [(''Italia'', 0), (''Economy'', a), (''USA'', b)]"
    by blast
  have "\<exists>v. valid_cats CATEGORIES [(''Italia'', 0), (''Economy'', a), (''USA'', b)] = Inr v
          \<and> ''Italia'' \<notin> fst ` set v"
    by (cases "6 \<le> a"; cases "4 \<le> b"; simp add: CATEGORIES_def get_threshold_def)
  then show ?thesis by (simp only: eq)
qed

text \<open>
  C6. Exclusion is absolute under the shipped rules: when the normalized text matches an
  exclusion pattern of a category \<open>C\<close>, \<open>C\<close> is not among the qualifying categories and
  \<open>classify_text\<close> does not return \<open>C\<close>, whatever its keywords would score.
\<close>

theorem exclusion_is_absolute:
  assumes "(C, config) \<in> set CATEGORIES"
      and "list_ex (\<lambda>p. pattern_search p (normalize s)) (get_exclude config)"
      and "py_str x = Inr s"
  shows "(\<exists>v. valid_cats CATEGORIES (compute_scores CATEGORIES (normalize s)) = Inr v
              \<and> C \<notin> fst ` set v)
         \<and> classify_text x \<noteq> Returned C"
proof -
  from excluded_only_Italia [OF assms(1,2)] have C: "C = ''Italia''"
    and m: "pattern_search [''ue'', ''eu'', ''nato'', ''europa''] (normalize s)" by simp_all
  from excluded_valid [OF m] obtain v where
    v: "valid_cats CATEGORIES (compute_scores CATEGORIES (normalize s)) = Inr v"
    and n: "''Italia'' \<notin> fst ` set v" by blast
  have "py_max_key v \<noteq> ''Italia''"
  proof
    assume "py_max_key v = ''Italia''"
    with py_max_key_mem [of v] have "''Italia'' \<in> fst ` set v \<union> {''Altro''}" by simp
    then have "''Italia'' \<in> fst ` set v" by simp
    with n show False by contradiction
  qed
  with v assms(3) have "classify_text x \<noteq> Returned ''Italia''"
    by (simp add: classify_text_def classify_body_def Let_def)
  with v n C show ?thesis by blast
qed

lemma norm_europa:
  "normalize ''Italia, Europa e governo'' = ''italia europa e governo''"
  by (simp add: text_eval)

lemma europa_matches:
  "pattern_search [''ue'', ''eu'', ''nato'', ''europa''] ''italia europa e governo''"
  by (simp add: search_eval)

lemma europa_raw_score:
  "keyword_score (the (map_of CATEGORIES ''Italia'')) ''italia europa e governo'' = 7"
  by (simp add: CATEGORIES_def keyword_score_def search_eval)

theorem exclusion_is_absolute_witness:
  "keyword_score (the (map_of CATEGORIES ''Italia'')) (normalize ''Italia, Europa e governo'') = 7
   \<and> (\<exists>v. valid_cats CATEGORIES
              (compute_scores CATEGORIES (normalize ''Italia, Europa e governo'')) = Inr v
            \<and> ''Italia'' \<notin> fst ` set v)
   \<and> classify_text (PyStr ''Italia, Europa e governo'') \<noteq> Returned ''Italia''"
proof -
  have 1: "(''Italia'', the (map_of CATEGORIES ''Italia'')) \<in> set CATEGORIES"
    by (simp add: CATEGORIES_def)
  have 2: "list_ex (\<lambda>p. pattern_search p (normalize ''Italia, Europa e governo''))
             (get_exclude (the (map_of CATEGORIES ''Italia'')))"
    by (simp add: norm_europa europa_matches CATEGORIES_def get_exclude_def)
  have 3: "py_str (PyStr ''Italia, Europa e governo'') = Inr ''Italia, Europa e governo''"
    by (simp add: py_str_def)
  from exclusion_is_absolute [OF 1 2 3] show ?thesis
    by (simp add: norm_europa europa_raw_score)
qed

subsection \<open>The Senato scenario\<close>

lemma norm_senato:
  "normalize ''Il Senato approva la nuova legge di bilancio''
     = ''il senato approva la nuova legge di bilancio''"
  by (simp add: text_eval)

lemma norm_senato_governo:
  "normalize ''Il Senato approva la nuova legge di bilancio del governo''
     = ''il senato approva la nuova legge di bilancio del governo''"
  by (simp add: text_eval)

lemma norm_senato_italia:
  "normalize ''Il Senato approva la nuova legge di bilancio: Italia''
     = ''il senato approva la nuova legge di bilancio italia''"
  by (simp add: text_eval)

lemma scores_senato:
  "compute_scores CATEGORIES ''il senato approva la nuova legge di bilancio''
     = [(''Italia'', 4), (''Economy'', 0), (''USA'', 0)]"
  by (simp add: classify_eval search_eval)

lemma scores_senato_governo:
  "compute_scores CATEGORIES ''il senato approva la nuova legge di bilancio del governo''
     = [(''Italia'', 4), (''Economy'', 0), (''USA'', 0)]"
  by (simp add: classify_eval search_eval)

lemma scores_senato_italia:
  "compute_scores CATEGORIES ''il senato approva la nuova legge di bilancio italia''
     = [(''Italia'', 7), (''Economy'', 0), (''USA'', 0)]"
  by (simp add: classify_eval search_eval)

lemma valid_4: "valid_cats CATEGORIES [(''Italia'', 4), (''Economy'', 0), (''USA'', 0)] = Inr []"
  by (simp add: CATEGORIES_def get_threshold_def)

lemma valid_7:
  "valid_cats CATEGORIES [(''Italia'', 7), (''Economy'', 0), (''USA'', 0)]
     = Inr [(''Italia'', 7)]"
  by (simp add: CATEGORIES_def get_threshold_def)

lemma classify_senato:
  "classify_text (PyStr ''Il Senato approva la nuova legge di bilancio'') = Returned ''Altro''"
  by (simp add: classify_text_def classify_body_def py_str_def norm_senato scores_senato
      valid_4 py_max_key_def del: valid_cats.simps)

lemma classify_senato_governo:
  "classify_text (PyStr ''Il Senato approva la nuova legge di bilancio del governo'')
     = Returned ''Altro''"
  by (simp add: classify_text_def classify_body_def py_str_def norm_senato_governo
      scores_senato_governo valid_4 py_max_key_def del: valid_cats.simps)

lemma classify_senato_italia:
  "classify_text (PyStr ''Il Senato approva la nuova legge di bilancio: Italia'')
     = Returned ''Italia''"
  by (simp add: classify_text_def classify_body_def py_str_def norm_senato_italia
      scores_senato_italia valid_7 py_max_key_def del: valid_cats.simps)

text \<open>
  C1, as stated, fails: \<open>senato\<close> and \<open>governo\<close> are alternatives of one and the same
  pattern of weight 4, so a text matching both still scores 4 for \<open>"Italia"\<close> (not 8) and
  is classified \<open>"Altro"\<close> (not \<open>"Italia"\<close>).
\<close>

theorem senato_governo_counterexample:
  "map_of (compute_scores CATEGORIES
      (normalize ''Il Senato approva la nuova legge di bilancio del governo'')) ''Italia''
     = Some 4
   \<and> map_of (compute_scores CATEGORIES
      (normalize ''Il Senato approva la nuova legge di bilancio del governo'')) ''Italia''
     \<noteq> Some 8
   \<and> classify_text (PyStr ''Il Senato approva la nuova legge di bilancio del governo'')
     = Returned ''Altro''
   \<and> classify_text (PyStr ''Il Senato approva la nuova legge di bilancio del governo'')
     \<noteq> Returned ''Italia''"
  by (simp add: norm_senato_governo scores_senato_governo classify_senato_governo)

text \<open>
  C1 amended. Every pattern contributes its weight once when it matches at least once (the
  score is the sum over the patterns, not over the matches). The text
  \<open>"Il Senato approva la nuova legge di bilancio"\<close> scores 4 for \<open>"Italia"\<close>, below the
  threshold 5, and is classified \<open>"Altro"\<close>; extended with \<open>governo\<close> (the same pattern) it
  still scores 4 and is \<open>"Altro"\<close>; extended with a match of another pattern, \<open>Italia\<close>
  (weight 3), it scores 7, at least 5, and is classified \<open>"Italia"\<close>.
\<close>

theorem senato_scenario:
  "keyword_score config t
     = (\<Sum>(p, weight) \<leftarrow> rule_keywords config. if pattern_search p t then weight else 0)
   \<and> map_of (compute_scores CATEGORIES
        (normalize ''Il Senato approva la nuova legge di bilancio'')) ''Italia'' = Some 4
   \<and> classify_text (PyStr ''Il Senato approva la nuova legge di bilancio'')
       = Returned ''Altro''
   \<and> map_of (compute_scores CATEGORIES
        (normalize ''Il Senato approva la nuova legge di bilancio del governo'')) ''Italia''
       = Some 4
   \<and> classify_text (PyStr ''Il Senato approva la nuova legge di bilancio del governo'')
       = Returned ''Altro''
   \<and> map_of (compute_scores CATEGORIES
        (normalize ''Il Senato approva la nuova legge di bilancio: Italia'')) ''Italia''
       = Some 7
   \<and> classify_text (PyStr ''Il Senato approva la nuova legge di bilancio: Italia'')
       = Returned ''Italia''"
  by (simp add: keyword_score_sum norm_senato norm_senato_governo norm_senato_italia
      scores_senato scores_senato_governo scores_senato_italia
      classify_senato classify_senato_governo classify_senato_italia)

theorem senato_scenario_witness:
  "keyword_score (the (map_of CATEGORIES ''Italia''))
       ''il senato approva la nuova legge di bilancio del governo'' = 4
   \<and> classify_text (PyStr ''Il Senato approva la nuova legge di bilancio: Italia'')
       = Returned ''Italia''"
proof -
  have "(\<Sum>(p, weight) \<leftarrow> rule_keywords (the (map_of CATEGORIES ''Italia'')).
           if pattern_search p ''il senato approva la nuova legge di bilancio del governo''
           then weight else 0) = 4"
    by (simp add: CATEGORIES_def search_eval)
  with senato_scenario [of "the (map_of CATEGORIES ''Italia'')"
      "''il senato approva la nuova legge di bilancio del governo''"]
  show ?thesis by simp
qed

section \<open>Properties of load_cache\<close>

lemma load_filter_wf:
  "Malformed \<notin> snd ` set kvs \<Longrightarrow>
   \<exists>c. load_filter now kvs = Some c
     \<and> set c = {(k, v). (k, WellFormed v) \<in> set kvs
                  \<and> now - rec_timestamp v < CACHE_EXPIRE_DAYS * 86400}
     \<and> (distinct (map fst kvs) \<longrightarrow> distinct (map fst c))"
proof (induction now kvs rule: load_filter.induct)
  case (1 now)
  then show ?case by simp
next
  case (2 now k r)
  then show ?case by simp
next
  case (3 now k v r)
  then have "Malformed \<notin> snd ` set r" by auto
  from 3(1) [OF this] obtain c where
    c: "load_filter now r = Some c"
    and s: "set c = {(k, v). (k, WellFormed v) \<in> set r
                  \<and> now - rec_timestamp v < CACHE_EXPIRE_DAYS * 86400}"
    and d: "distinct (map fst r) \<longrightarrow> distinct (map fst c)" by blast
  from s have sub: "fst ` set c \<subseteq> fst ` set r" by force
  show ?case using c s d sub by (auto simp: image_iff)
qed

text \<open>
  C5 amended. When the cache file loads (its records are well formed, its keys distinct), a
  persisted record is absent from the cache returned by \<open>load_cache\<close> if and only if
  \<open>now - timestamp \<ge> TTL\<close>: the record is kept exactly when \<open>now - timestamp < TTL\<close>
  (three days), so a record whose age equals the TTL is already dropped.
\<close>

theorem load_cache_ttl:
  assumes "distinct (map fst kvs)"
      and "Malformed \<notin> snd ` set kvs"
      and "(k, WellFormed v) \<in> set kvs"
  shows "map_of (load_cache (Parsed kvs) now) k
           = (if now - rec_timestamp v < CACHE_EXPIRE_DAYS * 86400 then Some v else None)"
proof -
  from load_filter_wf [OF assms(2), of now] assms(1) obtain c where
    c: "load_filter now kvs = Some c"
    and s: "set c = {(k, v). (k, WellFormed v) \<in> set kvs
                  \<and> now - rec_timestamp v < CACHE_EXPIRE_DAYS * 86400}"
    and d: "distinct (map fst c)" by blast
  have lc: "load_cache (Parsed kvs) now = c" by (simp add: load_cache_def c)
  have uniq: "\<And>w. (k, WellFormed w) \<in> set kvs \<Longrightarrow> w = v"
    using assms(1,3) by (metis eq_key_imp_eq_value json_record.inject)
  show ?thesis
  proof (cases "now - rec_timestamp v < CACHE_EXPIRE_DAYS * 86400")
    case True
    with s assms(3) have "(k, v) \<in> set c" by simp
    with d have "map_of c k = Some v" by simp
    with True lc show ?thesis by simp
  next
    case False
    have "map_of c k = None"
    proof (rule ccontr)
      assume "map_of c k \<noteq> None"
      then obtain w where "map_of c k = Some w" by blast
      then have "(k, w) \<in> set c" by (rule map_of_SomeD)
      with s have "(k, WellFormed w) \<in> set kvs"
        and "now - rec_timestamp w < CACHE_EXPIRE_DAYS * 86400" by simp_all
      with uniq False show False by blast
    qed
    with False lc show ?thesis by simp
  qed
qed

text \<open>
  C5, as stated, fails at the boundary: a record whose age equals the TTL exactly does not
  satisfy \<open>now - timestamp > TTL\<close>, yet it is absent after \<open>load_cache\<close>.
\<close>

theorem ttl_boundary_counterexample:
  "\<not> ((259200::real) - 0 > CACHE_EXPIRE_DAYS * 86400)
   \<and> map_of (load_cache (Parsed [(''k'', WellFormed \<lparr>rec_timestamp = 0, rec_category = ''Altro'',
        rec_title = ''t'', rec_link = ''l''\<rparr>)]) 259200) ''k'' = None"
  by (simp add: load_cache_def CACHE_EXPIRE_DAYS_def)

text \<open>
  The amended C5 at a concrete file: one second before the boundary the record is present,
  at the boundary it is gone.
\<close>

theorem load_cache_ttl_witness:
  "map_of (load_cache (Parsed [(''k'', WellFormed \<lparr>rec_timestamp = 0, rec_category = ''Altro'',
        rec_title = ''t'', rec_link = ''l''\<rparr>)]) 259199) ''k''
     = Some \<lparr>rec_timestamp = 0, rec_category = ''Altro'', rec_title = ''t'', rec_link = ''l''\<rparr>
   \<and> map_of (load_cache (Parsed [(''k'', WellFormed \<lparr>rec_timestamp = 0, rec_category = ''Altro'',
        rec_title = ''t'', rec_link = ''l''\<rparr>)]) 259200) ''k'' = None"
  using load_cache_ttl [of "[(''k'', WellFormed \<lparr>rec_timestamp = 0, rec_category = ''Altro'',
        rec_title = ''t'', rec_link = ''l''\<rparr>)]" "''k''" "\<lparr>rec_timestamp = 0, rec_category = ''Altro'',
        rec_title = ''t'', rec_link = ''l''\<rparr>" 259199]
    load_cache_ttl [of "[(''k'', WellFormed \<lparr>rec_timestamp = 0, rec_category = ''Altro'',
        rec_title = ''t'', rec_link = ''l''\<rparr>)]" "''k''" "\<lparr>rec_timestamp = 0, rec_category = ''Altro'',
        rec_title = ''t'', rec_link = ''l''\<rparr>" 259200]
  by (simp add: CACHE_EXPIRE_DAYS_def)

section \<open>Properties of process_entry\<close>

lemma classify_text_returns: "\<exists>label. classify_text x = Returned label"
  by (cases "classify_body x") (simp_all add: classify_text_def)

lemma process_entry_known:
  "map_of (snd (process_entry H cache now entry)) (content_hash H entry) \<noteq> None"
proof -
  obtain label where "classify_text (PyStr (raw_text entry)) = Returned label"
    using classify_text_returns by blast
  then show ?thesis
    by (auto simp: process_entry_def Let_def update_conv')
qed

lemma process_entry_seen:
  "map_of cache (content_hash H entry) \<noteq> None \<Longrightarrow>
   process_entry H cache now entry = (None, cache)"
  by (simp add: process_entry_def Let_def)

lemma process_entry_distinct:
  "distinct (map fst cache) \<Longrightarrow> distinct (map fst (snd (process_entry H cache now entry)))"
proof -
  assume d: "distinct (map fst cache)"
  obtain label where "classify_text (PyStr (raw_text entry)) = Returned label"
    using classify_text_returns by blast
  with d show ?thesis
    by (auto simp: process_entry_def Let_def distinct_update)
qed

lemma distinct_key_once:
  "distinct (map fst al) \<Longrightarrow> map_of al k \<noteq> None \<Longrightarrow>
   length (filter (\<lambda>p. fst p = k) al) = 1"
proof (induction al)
  case Nil
  then show ?case by simp
next
  case (Cons a al)
  show ?case
  proof (cases "fst a = k")
    case True
    with Cons.prems(1) have "k \<notin> fst ` set al" by auto
    then have "filter (\<lambda>p. fst p = k) al = []" by (auto simp: filter_empty_conv)
    with True show ?thesis by simp
  next
    case False
    with Cons.prems have "map_of al k \<noteq> None" by (cases a) auto
    with Cons.IH Cons.prems(1) False show ?thesis by simp
  qed
qed

lemma update_absent:
  "map_of al k = None \<Longrightarrow> AList.update k v al = al @ [(k, v)]"
  by (induction al) (auto split: if_splits)

lemma filter_absent:
  "map_of al k = None \<Longrightarrow> filter (\<lambda>p. fst p = k) al = []"
  by (induction al) (auto split: if_splits)

lemma process_entry_new:
  assumes "map_of cache (content_hash H entry) = None"
      and "classify_text (PyStr (raw_text entry)) = Returned label"
  shows "process_entry H cache now entry
           = (Some label,
              cache @ [(content_hash H entry,
                        \<lparr>rec_timestamp = now, rec_category = label,
                         rec_title = take 200 (entry_get (entry_title entry)),
                         rec_link = entry_get (entry_link entry)\<rparr>)])"
  using assms by (simp add: process_entry_def Let_def update_absent)

lemma norm_a_b_c: "normalize ''A B C'' = ''a b c''"
  by (simp add: text_eval)

lemma scores_a_b_c:
  "compute_scores CATEGORIES ''a b c'' = [(''Italia'', 0), (''Economy'', 0), (''USA'', 0)]"
  by (simp add: compute_scores_def excluded_cats_def keyword_score_def get_exclude_def
      CATEGORIES_def search_eval)

lemma valid_0: "valid_cats CATEGORIES [(''Italia'', 0), (''Economy'', 0), (''USA'', 0)] = Inr []"
  by (simp add: CATEGORIES_def get_threshold_def)

lemma classify_a_b_c: "classify_text (PyStr ''A B C'') = Returned ''Altro''"
  by (simp add: classify_text_def classify_body_def py_str_def norm_a_b_c scores_a_b_c valid_0
      py_max_key_def del: valid_cats.simps)

lemma encode_a_b_c: "encode ''A B C'' = [65, 32, 66, 32, 67]"
  by (simp add: encode_def encode_char_def)

text \<open>
  C4 amended. The dedup key is the digest of the raw (not normalized) text
  \<open>title + " " + description\<close>, UTF-8 encoded. Processing, one after the other, two entries
  with the same key leaves exactly one record under that key: \<open>process_entry\<close> returns
  \<open>None\<close> for the second entry, does not classify it and does not change the cache.
\<close>

theorem dedup_same_fingerprint:
  assumes "content_hash H e1 = content_hash H e2"
      and "distinct (map fst cache)"
  shows "content_hash H e1
           = H (encode (entry_get (entry_title e1) @ '' '' @ entry_get (entry_description e1)))
         \<and> process_entry H (snd (process_entry H cache t1 e1)) t2 e2
             = (None, snd (process_entry H cache t1 e1))
         \<and> length (filter (\<lambda>p. fst p = content_hash H e1)
             (snd (process_entry H (snd (process_entry H cache t1 e1)) t2 e2))) = 1"
proof -
  let ?c1 = "snd (process_entry H cache t1 e1)"
  have k: "map_of ?c1 (content_hash H e2) \<noteq> None"
    using process_entry_known [of H cache t1 e1] assms(1) by simp
  have 2: "process_entry H ?c1 t2 e2 = (None, ?c1)"
    by (rule process_entry_seen [OF k])
  have d: "distinct (map fst ?c1)" by (rule process_entry_distinct [OF assms(2)])
  have "length (filter (\<lambda>p. fst p = content_hash H e1) ?c1) = 1"
    using distinct_key_once [OF d] k assms(1) by simp
  with 2 show ?thesis by (simp add: content_hash_def raw_text_def)
qed

text \<open>
  C4, as stated, fails: the digest is not taken of the normalized text. The entries titled
  \<open>"Hello"\<close> and \<open>"hello"\<close> normalize to the same text, but the bytes handed to the digest
  differ (SHA-256 gives 2ec5a3f0... for the first and 5e3235a8... for the second), so the
  two fingerprints are not equal for every digest and the entries are cached as two articles.
\<close>

theorem raw_text_counterexample:
  "normalize (raw_text \<lparr>entry_title = Some ''Hello'', entry_description = None, entry_link = None\<rparr>)
     = normalize (raw_text \<lparr>entry_title = Some ''hello'', entry_description = None, entry_link = None\<rparr>)
   \<and> encode (raw_text \<lparr>entry_title = Some ''Hello'', entry_description = None, entry_link = None\<rparr>)
     \<noteq> encode (raw_text \<lparr>entry_title = Some ''hello'', entry_description = None, entry_link = None\<rparr>)
   \<and> \<not> (\<forall>H. content_hash H
               \<lparr>entry_title = Some ''Hello'', entry_description = None, entry_link = None\<rparr>
             = content_hash H
               \<lparr>entry_title = Some ''hello'', entry_description = None, entry_link = None\<rparr>)"
proof -
  have n: "normalize (raw_text \<lparr>entry_title = Some ''Hello'', entry_description = None,
             entry_link = None\<rparr>)
           = normalize (raw_text \<lparr>entry_title = Some ''hello'', entry_description = None,
             entry_link = None\<rparr>)"
    by (simp add: raw_text_def entry_get_def text_eval)
  have e: "encode (raw_text \<lparr>entry_title = Some ''Hello'', entry_description = None,
             entry_link = None\<rparr>)
           \<noteq> encode (raw_text \<lparr>entry_title = Some ''hello'', entry_description = None,
             entry_link = None\<rparr>)"
    by (simp add: raw_text_def entry_get_def encode_def encode_char_def)
  have "content_hash (\<lambda>bs. map (\<lambda>b. char_of (unat b)) bs)
          \<lparr>entry_title = Some ''Hello'', entry_description = None, entry_link = None\<rparr>
        \<noteq> content_hash (\<lambda>bs. map (\<lambda>b. char_of (unat b)) bs)
          \<lparr>entry_title = Some ''hello'', entry_description = None, entry_link = None\<rparr>"
    by (simp add: content_hash_def raw_text_def entry_get_def encode_def encode_char_def
        char_of_def)
  then have "\<not> (\<forall>H. content_hash H
               \<lparr>entry_title = Some ''Hello'', entry_description = None, entry_link = None\<rparr>
             = content_hash H
               \<lparr>entry_title = Some ''hello'', entry_description = None, entry_link = None\<rparr>)"
    by blast
  with n e show ?thesis by blast
qed

text \<open>
  The amended C4 at two concrete entries that differ only in their link.
\<close>

theorem dedup_same_fingerprint_witness:
  "process_entry (map (\<lambda>b. char_of (unat b)))
     (snd (process_entry (map (\<lambda>b. char_of (unat b))) [] 10
        \<lparr>entry_title = Some ''A'', entry_description = Some ''B'', entry_link = Some ''x''\<rparr>)) 20
     \<lparr>entry_title = Some ''A'', entry_description = Some ''B'', entry_link = Some ''y''\<rparr>
   = (None, snd (process_entry (map (\<lambda>b. char_of (unat b))) [] 10
        \<lparr>entry_title = Some ''A'', entry_description = Some ''B'', entry_link = Some ''x''\<rparr>))"
  using dedup_same_fingerprint [of "map (\<lambda>b. char_of (unat b))"
      "\<lparr>entry_title = Some ''A'', entry_description = Some ''B'', entry_link = Some ''x''\<rparr>"
      "\<lparr>entry_title = Some ''A'', entry_description = Some ''B'', entry_link = Some ''y''\<rparr>"
      "[]" 10 20]
  by (simp add: content_hash_def raw_text_def)

text \<open>
  C10. The entries (title \<open>"A B"\<close>, description \<open>"C"\<close>) and (title \<open>"A"\<close>,
  description \<open>"B C"\<close>) have different fields and the same fingerprint, for every digest
  \<open>H\<close>, because both are joined to the same text \<open>"A B C"\<close>, whose UTF-8 bytes
  \<open>41 20 42 20 43\<close> are what the digest is taken of. With a cache that does not hold that
  fingerprint, the first entry is classified (\<open>"Altro"\<close>) and cached: one record is added
  under the fingerprint, and it is the only one. The second entry is then neither classified
  nor cached: \<open>process_entry\<close> returns \<open>None\<close> and leaves the cache as it was, so the two
  entries are kept as one article, carrying the title and the link of the first.
\<close>

theorem field_boundary_collision:
  assumes "map_of cache
             (content_hash H
                \<lparr>entry_title = Some ''A B'', entry_description = Some ''C'', entry_link = l1\<rparr>)
           = None"
  shows "(entry_title \<lparr>entry_title = Some ''A B'', entry_description = Some ''C'', entry_link = l1\<rparr>,
          entry_description \<lparr>entry_title = Some ''A B'', entry_description = Some ''C'', entry_link = l1\<rparr>)
           \<noteq> (entry_title \<lparr>entry_title = Some ''A'', entry_description = Some ''B C'', entry_link = l2\<rparr>,
               entry_description \<lparr>entry_title = Some ''A'', entry_description = Some ''B C'', entry_link = l2\<rparr>)
         \<and> raw_text \<lparr>entry_title = Some ''A B'', entry_description = Some ''C'', entry_link = l1\<rparr>
           = raw_text \<lparr>entry_title = Some ''A'', entry_description = Some ''B C'', entry_link = l2\<rparr>
         \<and> raw_text \<lparr>entry_title = Some ''A'', entry_description = Some ''B C'', entry_link = l2\<rparr>
           = ''A B C''
         \<and> content_hash H \<lparr>entry_title = Some ''A B'', entry_description = Some ''C'', entry_link = l1\<rparr>
           = H [65, 32, 66, 32, 67]
         \<and> content_hash H \<lparr>entry_title = Some ''A'', entry_description = Some ''B C'', entry_link = l2\<rparr>
           = H [65, 32, 66, 32, 67]
         \<and> process_entry H cache t1
             \<lparr>entry_title = Some ''A B'', entry_description = Some ''C'', entry_link = l1\<rparr>
           = (Some ''Altro'',
              cache @ [(H [65, 32, 66, 32, 67],
                        \<lparr>rec_timestamp = t1, rec_category = ''Altro'', rec_title = ''A B'',
                         rec_link = entry_get l1\<rparr>)])
         \<and> filter (\<lambda>p. fst p = H [65, 32, 66, 32, 67])
             (snd (process_entry H cache t1
                \<lparr>entry_title = Some ''A B'', entry_description = Some ''C'', entry_link = l1\<rparr>))
           = [(H [65, 32, 66, 32, 67],
               \<lparr>rec_timestamp = t1, rec_category = ''Altro'', rec_title = ''A B'',
                rec_link = entry_get l1\<rparr>)]
         \<and> process_entry H
             (snd (process_entry H cache t1
                \<lparr>entry_title = Some ''A B'', entry_description = Some ''C'', entry_link = l1\<rparr>)) t2
             \<lparr>entry_title = Some ''A'', entry_description = Some ''B C'', entry_link = l2\<rparr>
           = (None,
              cache @ [(H [65, 32, 66, 32, 67],
                        \<lparr>rec_timestamp = t1, rec_category = ''Altro'', rec_title = ''A B'',
                         rec_link = entry_get l1\<rparr>)])
         \<and> length (filter (\<lambda>p. fst p = H [65, 32, 66, 32, 67])
             (snd (process_entry H
                (snd (process_entry H cache t1
                   \<lparr>entry_title = Some ''A B'', entry_description = Some ''C'', entry_link = l1\<rparr>)) t2
                \<lparr>entry_title = Some ''A'', entry_description = Some ''B C'', entry_link = l2\<rparr>)))
           = 1"
proof -
  let ?e1 = "\<lparr>entry_title = Some ''A B'', entry_description = Some ''C'', entry_link = l1\<rparr>"
  let ?e2 = "\<lparr>entry_title = Some ''A'', entry_description = Some ''B C'', entry_link = l2\<rparr>"
  let ?k = "H [65, 32, 66, 32, 67]"
  let ?r = "\<lparr>rec_timestamp = t1, rec_category = ''Altro'', rec_title = ''A B'',
             rec_link = entry_get l1\<rparr>"
  have r1: "raw_text ?e1 = ''A B C''" by (simp add: raw_text_def entry_get_def)
  have r2: "raw_text ?e2 = ''A B C''" by (simp add: raw_text_def entry_get_def)
  have h1: "content_hash H ?e1 = ?k" by (simp only: content_hash_def r1 encode_a_b_c)
  have h2: "content_hash H ?e2 = ?k" by (simp only: content_hash_def r2 encode_a_b_c)
  have absent: "map_of cache ?k = None" using assms h1 by simp
  have c: "classify_text (PyStr (raw_text ?e1)) = Returned ''Altro''"
    by (simp only: r1 classify_a_b_c)
  have p1: "process_entry H cache t1 ?e1 = (Some ''Altro'', cache @ [(?k, ?r)])"
    using process_entry_new [OF assms c, of t1] h1 by (simp add: entry_get_def)
  have f1: "filter (\<lambda>p. fst p = ?k) (snd (process_entry H cache t1 ?e1)) = [(?k, ?r)]"
    using filter_absent [OF absent] by (simp add: p1)
  have "map_of (cache @ [(?k, ?r)]) (content_hash H ?e2) \<noteq> None"
    by (simp add: h2 absent)
  from process_entry_seen [OF this]
  have p2: "process_entry H (snd (process_entry H cache t1 ?e1)) t2 ?e2
              = (None, cache @ [(?k, ?r)])"
    by (simp add: p1)
  have f2: "length (filter (\<lambda>p. fst p = ?k)
              (snd (process_entry H (snd (process_entry H cache t1 ?e1)) t2 ?e2))) = 1"
    using filter_absent [OF absent] by (simp add: p2)
  have d: "(entry_title ?e1, entry_description ?e1) \<noteq> (entry_title ?e2, entry_description ?e2)"
    by simp
  from d r1 r2 h1 h2 p1 f1 p2 f2 show ?thesis by (simp only: simp_thms)
qed

text \<open>
  C10 at the empty cache, with the identity on bytes in the place of the digest, the
  links \<open>"x"\<close> and \<open>"y"\<close> and the times 10 and 20.
\<close>

theorem field_boundary_collision_witness:
  "map_of ([] :: cache)
     (content_hash (map (\<lambda>b. char_of (unat b)))
        \<lparr>entry_title = Some ''A B'', entry_description = Some ''C'', entry_link = Some ''x''\<rparr>)
     = None
   \<and> process_entry (map (\<lambda>b. char_of (unat b))) [] 10
       \<lparr>entry_title = Some ''A B'', entry_description = Some ''C'', entry_link = Some ''x''\<rparr>
     = (Some ''Altro'',
        [(''A B C'', \<lparr>rec_timestamp = 10, rec_category = ''Altro'', rec_title = ''A B'',
                      rec_link = ''x''\<rparr>)])
   \<and> process_entry (map (\<lambda>b. char_of (unat b)))
       [(''A B C'', \<lparr>rec_timestamp = 10, rec_category = ''Altro'', rec_title = ''A B'',
                     rec_link = ''x''\<rparr>)] 20
       \<lparr>entry_title = Some ''A'', entry_description = Some ''B C'', entry_link = Some ''y''\<rparr>
     = (None,
        [(''A B C'', \<lparr>rec_timestamp = 10, rec_category = ''Altro'', rec_title = ''A B'',
                      rec_link = ''x''\<rparr>)])"
  using field_boundary_collision [where cache = "[]" and H = "map (\<lambda>b. char_of (unat b))"
      and ?l1.0 = "Some ''x''" and ?l2.0 = "Some ''y''" and ?t1.0 = 10 and ?t2.0 = 20]
  by (auto simp: entry_get_def char_of_def bit_Suc_0_iff)

section \<open>Properties of fetch_feed and of the publish phase\<close>

lemma formatdate_unbound: "call_global ''formatdate'' fmt t = Inl NameError"
  by (simp add: call_global_def module_globals_def)

lemma fetch_feed_cooling_down:
  "feed_timeout st feed_url = Some until \<Longrightarrow> t0 < until \<Longrightarrow>
   fetch_feed fmt http parse st feed_url t0 t1 = ([], st, [])"
  by (simp add: fetch_feed_def)

lemma fetch_feed_failure_sets_cool_down:
  "fetch_feed fmt http parse st feed_url t0 t1 = (r, st', evs) \<Longrightarrow> LogError \<in> set evs \<Longrightarrow>
   r = [] \<and> feed_timeout st' feed_url = Some (t1 + 300)"
  by (auto simp: fetch_feed_def cool_down_def split: if_splits option.splits sum.splits)

text \<open>
  C3 (defect of the code). For a feed with a recorded last fetch that is not cooling down,
  \<open>fetch_feed\<close> evaluates \<open>formatdate\<close>, a name the module never binds: the
  \<open>NameError\<close> is caught by the handler, so no request is sent, an error is logged and
  the feed enters a cool-down of 300 seconds. The conditional request of the claim is never
  issued.
\<close>

theorem conditional_fetch_raises:
  "fetch_feed fmt http parse
     \<lparr>last_fetch = [''https://www.ansa.it/sito/ansait_rss.xml'' \<mapsto> 1000],
      feed_timeout = Map.empty\<rparr>
     ''https://www.ansa.it/sito/ansait_rss.xml'' 5000 5001
   = ([],
      \<lparr>last_fetch = [''https://www.ansa.it/sito/ansait_rss.xml'' \<mapsto> 1000],
       feed_timeout = [''https://www.ansa.it/sito/ansait_rss.xml'' \<mapsto> 5301]\<rparr>,
      [LogError])"
  by (simp add: fetch_feed_def formatdate_unbound cool_down_def)

text \<open>
  C8 (defect of the code, the same one as C3). During the cool-down \<open>fetch_feed\<close>
  returns the empty list with no effect at all; but for a feed that was fetched successfully
  before, a call after the cool-down has elapsed sends no request either: it raises
  \<open>NameError\<close> on \<open>formatdate\<close> again, logs an error and starts the next cool-down.
\<close>

theorem no_request_after_cool_down:
  "fetch_feed fmt http parse
     \<lparr>last_fetch = [''https://www.ansa.it/sito/ansait_rss.xml'' \<mapsto> 1000],
      feed_timeout = [''https://www.ansa.it/sito/ansait_rss.xml'' \<mapsto> 5301]\<rparr>
     ''https://www.ansa.it/sito/ansait_rss.xml'' 5100 5100
   = ([],
      \<lparr>last_fetch = [''https://www.ansa.it/sito/ansait_rss.xml'' \<mapsto> 1000],
       feed_timeout = [''https://www.ansa.it/sito/ansait_rss.xml'' \<mapsto> 5301]\<rparr>,
      [])
   \<and> fetch_feed fmt http parse
     \<lparr>last_fetch = [''https://www.ansa.it/sito/ansait_rss.xml'' \<mapsto> 1000],
      feed_timeout = [''https://www.ansa.it/sito/ansait_rss.xml'' \<mapsto> 5301]\<rparr>
     ''https://www.ansa.it/sito/ansait_rss.xml'' 6000 6001
   = ([],
      \<lparr>last_fetch = [''https://www.ansa.it/sito/ansait_rss.xml'' \<mapsto> 1000],
       feed_timeout = [''https://www.ansa.it/sito/ansait_rss.xml'' \<mapsto> 6301]\<rparr>,
      [LogError])"
  by (simp add: fetch_feed_def formatdate_unbound cool_down_def)

text \<open>
  C2 (defect of the code). \<open>generate_opml\<close> writes the document of a category, but
  neither the publish phase of \<open>main\<close> nor its interrupt handler calls it: their effects
  are those of \<open>push_to_github\<close> alone, so no per-category document is written before
  the push.
\<close>

theorem publish_never_generates:
  "set (generate_opml dir cache category)
     \<inter> set (fst (publish_phase repo_available g cache last_push current_time t_after)) = {}
   \<and> set (generate_opml dir cache category) \<inter> set (on_interrupt repo_available g cache) = {}
   \<and> fst (publish_phase True GitOk cache 0 21601 21602)
       = [GitAddAll, GitCommit, GitPush, LogInfo]"
  by (cases g) (simp_all add: generate_opml_def publish_phase_def on_interrupt_def
      push_to_github_def)

end
